theory Spec2Isabelle
  imports Complex_Main "HOL-Library.Sublist"
begin

section \<open>Python values used by the driver\<close>

text \<open>
  The numbers handled by \<^verbatim>\<open>Keithley_2260B_lib.py\<close> are Python ints (a caller may pass
  \<^verbatim>\<open>set_voltage(10)\<close>) and Python floats (every value returned by \<^verbatim>\<open>float(...)\<close>).
  A finite float is modelled by the real number it denotes; the two infinities and NaN
  are values of their own, because \<^verbatim>\<open>float("nan")\<close> and \<^verbatim>\<open>float("inf")\<close> parse
  and every comparison with NaN is false.
\<close>

datatype pynum = PyInt int | PyFloat real | PyInf | PyNegInf | PyNaN

text \<open>Python's \<^verbatim>\<open>a < b\<close> on ints and floats (mixed comparisons are exact).\<close>

fun py_lt :: "pynum \<Rightarrow> pynum \<Rightarrow> bool" where
  "py_lt PyNaN b = False"
| "py_lt a PyNaN = False"
| "py_lt a PyNegInf = False"
| "py_lt PyNegInf b = True"
| "py_lt PyInf b = False"
| "py_lt a PyInf = True"
| "py_lt (PyInt i) (PyInt j) = (i < j)"
| "py_lt (PyInt i) (PyFloat y) = (real_of_int i < y)"
| "py_lt (PyFloat x) (PyInt j) = (x < real_of_int j)"
| "py_lt (PyFloat x) (PyFloat y) = (x < y)"

text \<open>Python's \<^verbatim>\<open>a <= b\<close>.\<close>

fun py_le :: "pynum \<Rightarrow> pynum \<Rightarrow> bool" where
  "py_le PyNaN b = False"
| "py_le a PyNaN = False"
| "py_le PyNegInf b = True"
| "py_le a PyNegInf = False"
| "py_le a PyInf = True"
| "py_le PyInf b = False"
| "py_le (PyInt i) (PyInt j) = (i \<le> j)"
| "py_le (PyInt i) (PyFloat y) = (real_of_int i \<le> y)"
| "py_le (PyFloat x) (PyInt j) = (x \<le> real_of_int j)"
| "py_le (PyFloat x) (PyFloat y) = (x \<le> y)"

text \<open>
  \<^verbatim>\<open>str(n)\<close>: decimal digits for an int, \<^verbatim>\<open>inf\<close>, \<^verbatim>\<open>-inf\<close> and \<^verbatim>\<open>nan\<close> for the
  special floats. The shortest round-trip rendering of a finite float belongs to the
  Python runtime, not to the repository: it is the parameter \<open>repr\<close>.
\<close>

fun digits :: "nat \<Rightarrow> string" where
  "digits n = (if n < 10 then [''0123456789'' ! n]
               else digits (n div 10) @ [''0123456789'' ! (n mod 10)])"

declare digits.simps [simp del]

definition str_int :: "int \<Rightarrow> string" where
  "str_int i = (if i < 0 then CHR ''-'' # digits (nat (- i)) else digits (nat i))"

fun py_str :: "(real \<Rightarrow> string) \<Rightarrow> pynum \<Rightarrow> string" where
  "py_str repr (PyInt i) = str_int i"
| "py_str repr (PyFloat x) = repr x"
| "py_str repr PyInf = ''inf''"
| "py_str repr PyNegInf = ''-inf''"
| "py_str repr PyNaN = ''nan''"

text \<open>
  \<^verbatim>\<open>str.strip()\<close>: leading and trailing whitespace is removed. A character is a code
  point below 256; Python's \<^verbatim>\<open>isspace\<close> holds there for 9 to 13, 28 to 32, 133
  and 160.
\<close>

definition isspace :: "char \<Rightarrow> bool" where
  "isspace c = (let n = (of_char c :: nat)
                in (9 \<le> n \<and> n \<le> 13) \<or> (28 \<le> n \<and> n \<le> 32) \<or> n = 133 \<or> n = 160)"

definition strip :: "string \<Rightarrow> string" where
  "strip s = rev (dropWhile isspace (rev (dropWhile isspace s)))"

section \<open>The session object\<close>

datatype error =
    Blocked         \<comment> \<open>the call never returns: \<^verbatim>\<open>readline\<close>, \<^verbatim>\<open>acquire\<close> or \<^verbatim>\<open>join\<close> waits for ever\<close>
  | ValueError      \<comment> \<open>\<^verbatim>\<open>float(...)\<close> on text that is not a number\<close>
  | RuntimeError    \<comment> \<open>joining a thread that was never started, releasing a lock not held\<close>
  | ArrayError      \<comment> \<open>\<^verbatim>\<open>np.savetxt\<close> on rows of different lengths\<close>

text \<open>
  Everything the object does to the outside is recorded, in order, in \<open>trace\<close>: the
  bytes given to \<^verbatim>\<open>dev.write\<close>, the lines taken from \<^verbatim>\<open>dev.readline\<close>, warnings,
  lock operations, sleeps (in milliseconds), appends to the three series, thread
  operations and the file written by \<^verbatim>\<open>save_data\<close>.
\<close>

datatype event =
    Write string
  | ReadLine string
  | Warning string
  | Acquire nat
  | Release nat
  | Sleep nat
  | AppendVoltage pynum
  | AppendCurrent pynum
  | AppendPower pynum
  | SetFlag bool
  | ThreadStart nat
  | Join nat
  | OpenW string
  | Savetxt "string list"

datatype thread_state = Unstarted | Running | Stuck | Done

text \<open>
  The attributes of \<^verbatim>\<open>class keithley_2260B\<close>. \<open>dev_in\<close> holds the lines the device
  will still send, oldest first, each as decoded text; \<open>lock\<close> is the \<^verbatim>\<open>RLock\<close>
  (owner thread and depth, or free); \<open>threads\<close> holds the state of every
  \<^verbatim>\<open>Thread\<close> object created so far and \<open>ps_thread\<close> is the index of the one the
  attribute of that name refers to.
\<close>

record keithley_2260B =
  ps_info_string :: string
  max_voltage :: pynum
  min_voltage :: pynum
  max_current :: pynum
  min_current :: pynum
  max_power :: pynum
  over_current_protection_min :: pynum
  over_current_protection_max :: pynum
  over_voltage_protection_min :: pynum
  over_voltage_protection_max :: pynum
  current_max_rising_slew_rate :: pynum
  current_min_rising_slew_rate :: pynum
  current_max_falling_slew_rate :: pynum
  current_min_falling_slew_rate :: pynum
  voltage_max_rising_slew_rate :: pynum
  voltage_min_rising_slew_rate :: pynum
  voltage_max_falling_slew_rate :: pynum
  voltage_min_falling_slew_rate :: pynum
  internal_resistance_min :: pynum
  internal_resistance_max :: pynum
  dev_in :: "string list"
  trace :: "event list"
  lock :: "(nat \<times> nat) option"
  reading_thread_active :: bool
  threads :: "thread_state list"
  ps_thread :: nat
  data_current :: "pynum list"
  data_voltage :: "pynum list"
  data_power :: "pynum list"

type_synonym 'a action = "keithley_2260B \<Rightarrow> (error + 'a) \<times> keithley_2260B"

text \<open>
  Sequencing of two statements: an exception raised by the first one skips the second
  and keeps the state reached so far.
\<close>

definition and_then :: "'a action \<Rightarrow> ('a \<Rightarrow> 'b action) \<Rightarrow> 'b action" where
  "and_then m f s = (case m s of (Inl e, s') \<Rightarrow> (Inl e, s') | (Inr x, s') \<Rightarrow> f x s')"

definition emit :: "event \<Rightarrow> keithley_2260B \<Rightarrow> keithley_2260B" where
  "emit e s = s\<lparr>trace := trace s @ [e]\<rparr>"

definition pass :: "unit action" where
  "pass s = (Inr (), s)"

definition warning :: "string \<Rightarrow> unit action" where
  "warning msg s = (Inr (), emit (Warning msg) s)"

definition sleep :: "nat \<Rightarrow> unit action" where
  "sleep ms s = (Inr (), emit (Sleep ms) s)"

definition write_line :: "string \<Rightarrow> unit action" where
  "write_line string s = (Inr (), emit (Write (string @ [CHR 0x0A])) s)"

definition read :: "string action" where
  "read s = (case dev_in s of
               [] \<Rightarrow> (Inl Blocked, s)
             | l # ls \<Rightarrow> (Inr (strip l), emit (ReadLine l) (s\<lparr>dev_in := ls\<rparr>)))"

text \<open>
  \<^verbatim>\<open>float(text)\<close>: the parser is Python's; \<open>pfloat\<close> gives the number for text
  that is one and \<open>None\<close> where Python raises \<^verbatim>\<open>ValueError\<close>.
\<close>

definition to_float :: "(string \<Rightarrow> pynum option) \<Rightarrow> string \<Rightarrow> pynum action" where
  "to_float pfloat text s = (case pfloat text of None \<Rightarrow> (Inl ValueError, s) | Some v \<Rightarrow> (Inr v, s))"

section \<open>Commands of the device session\<close>

text \<open>
  Each definition below is the method of the same name. A numeric argument is a
  \<open>pynum\<close>; the optional \<^verbatim>\<open>min_max\<close> argument is \<open>None\<close> or a string. Serial
  port failures and \<^verbatim>\<open>print\<close> output are outside the model.
\<close>

definition abort :: "unit action" where
  "abort = write_line ''ABOR''"

definition set_voltage_current :: "(real \<Rightarrow> string) \<Rightarrow> pynum \<Rightarrow> pynum \<Rightarrow> unit action" where
  "set_voltage_current repr voltage current s =
     (if (py_lt (min_voltage s) voltage \<and> py_lt voltage (max_voltage s)) \<and>
         (py_lt (min_current s) current \<and> py_lt current (max_current s))
      then write_line (''APPL '' @ py_str repr voltage @ '','' @ py_str repr current) s
      else warning
        (''Warning: Set voltage or current out of power supply absolute ratings. '' @
         ''Command has been ignored.'') s)"

definition measure_current :: "(string \<Rightarrow> pynum option) \<Rightarrow> pynum action" where
  "measure_current pfloat =
     and_then (write_line ''MEAS:CURR?'') (\<lambda>_. and_then read (to_float pfloat))"

definition measure_voltage :: "(string \<Rightarrow> pynum option) \<Rightarrow> pynum action" where
  "measure_voltage pfloat =
     and_then (write_line ''MEAS:VOLT?'') (\<lambda>_. and_then read (to_float pfloat))"

definition measure_power :: "(string \<Rightarrow> pynum option) \<Rightarrow> pynum action" where
  "measure_power pfloat =
     and_then (write_line ''MEAS:POW?'') (\<lambda>_. and_then read (to_float pfloat))"

definition set_internal_resistance :: "(real \<Rightarrow> string) \<Rightarrow> pynum \<Rightarrow> unit action" where
  "set_internal_resistance repr resistance s =
     (if py_lt (internal_resistance_min s) resistance \<and> py_lt resistance (internal_resistance_max s)
      then write_line (''RES '' @ py_str repr resistance) s
      else warning
        (''Warning: Set internal resistance is out of power supply absolute ratings. '' @
         ''Command has been ignored.'') s)"

definition get_internal_resistance :: "(string \<Rightarrow> pynum option) \<Rightarrow> string option \<Rightarrow> pynum action" where
  "get_internal_resistance pfloat min_max =
     and_then
       (case min_max of
          None \<Rightarrow> write_line ''RES?''
        | Some m \<Rightarrow>
            if m = ''MIN'' then write_line ''RES? MIN''
            else if m = ''MAX'' then write_line ''RES? MAX''
            else pass)
       (\<lambda>_. and_then read (to_float pfloat))"

definition set_power_supply_mode :: "string \<Rightarrow> unit action" where
  "set_power_supply_mode ps_mode s =
     (if ps_mode \<in> set [''CVHS'', ''CCHS'', ''CVLS'', ''CCLS'']
      then write_line (''OUTP:MODE '' @ ps_mode) s
      else warning
        (''Warning: Malformed string for power supply mode command. '' @
         ''Command has been ignored.'') s)"

definition get_power_supply_mode :: "string action" where
  "get_power_supply_mode =
     and_then (write_line ''OUTP:MODE?'') (\<lambda>_.
     and_then read (\<lambda>ps_mode s.
       (Inr (if ps_mode = ''0'' then ''CVHS''
             else if ps_mode = ''1'' then ''CCHS''
             else if ps_mode = ''2'' then ''CVLS''
             else if ps_mode = ''3'' then ''CCLS''
             else ''''), s)))"

definition power_supply_on :: "unit action" where
  "power_supply_on = write_line ''OUTP 1''"


definition set_current :: "(real \<Rightarrow> string) \<Rightarrow> pynum \<Rightarrow> unit action" where
  "set_current repr current_value s =
     (if py_lt (min_current s) current_value \<and> py_lt current_value (max_current s)
      then write_line (''CURR '' @ py_str repr current_value) s
      else warning
        (''Warning: Set current target is out of power supply absolute ratings. '' @
         ''Command has been ignored.'') s)"

definition get_current :: "(string \<Rightarrow> pynum option) \<Rightarrow> string option \<Rightarrow> pynum action" where
  "get_current pfloat min_max =
     and_then
       (case min_max of
          None \<Rightarrow> write_line ''CURR?''
        | Some m \<Rightarrow>
            if m = ''MAX'' then write_line ''CURR? MAX''
            else if m = ''MIN'' then write_line ''CURR? MIN''
            else pass)
       (\<lambda>_. and_then read (to_float pfloat))"

definition set_over_current_protection :: "(real \<Rightarrow> string) \<Rightarrow> pynum \<Rightarrow> unit action" where
  "set_over_current_protection repr over_current_protection s =
     (if py_lt (over_current_protection_min s) over_current_protection \<and> py_lt over_current_protection (over_current_protection_max s)
      then write_line (''CURR:PROT '' @ py_str repr over_current_protection) s
      else warning
        (''Warning: Set over-current protection is out of power supply absolute ratings. '' @
         ''Command has been ignored.'') s)"

definition get_over_current_protection :: "(string \<Rightarrow> pynum option) \<Rightarrow> string option \<Rightarrow> pynum action" where
  "get_over_current_protection pfloat min_max =
     and_then
       (case min_max of
          None \<Rightarrow> write_line ''CURR:PROT?''
        | Some m \<Rightarrow>
            if m = ''MIN'' then write_line ''CURR:PROT? MIN''
            else if m = ''MAX'' then write_line ''CURR:PROT? MAX''
            else pass)
       (\<lambda>_. and_then read (to_float pfloat))"

definition set_rising_current_slew_rate :: "(real \<Rightarrow> string) \<Rightarrow> pynum \<Rightarrow> unit action" where
  "set_rising_current_slew_rate repr slew_rate s =
     (if py_lt (current_min_rising_slew_rate s) slew_rate \<and> py_lt slew_rate (current_max_falling_slew_rate s)
      then write_line (''CURR:SLEW:RIS '' @ py_str repr slew_rate) s
      else warning
        (''Warning: Set rising current slew rate is out of power supply absolute ratings. '' @
         ''Command has been ignored.'') s)"

definition get_rising_current_slew_rate :: "(string \<Rightarrow> pynum option) \<Rightarrow> string option \<Rightarrow> pynum action" where
  "get_rising_current_slew_rate pfloat min_max =
     and_then
       (case min_max of
          None \<Rightarrow> write_line ''CURR:SLEW:RIS?''
        | Some m \<Rightarrow>
            if m = ''MAX'' then write_line ''CURR:SLEW:RIS? MAX''
            else if m = ''MIN'' then write_line ''CURR:SLEW:RIS? MIN''
            else pass)
       (\<lambda>_. and_then read (to_float pfloat))"

definition set_over_voltage_protection :: "(real \<Rightarrow> string) \<Rightarrow> pynum \<Rightarrow> unit action" where
  "set_over_voltage_protection repr over_voltage_protection s =
     (if py_lt (over_current_protection_min s) over_voltage_protection \<and> py_lt over_voltage_protection (over_voltage_protection_max s)
      then write_line (''VOLT:PROT '' @ py_str repr over_voltage_protection) s
      else warning
        (''Warning: Set over-voltage protection is out of power supply absolute ratings. '' @
         ''Command has been ignored.'') s)"

definition get_over_voltage_protection :: "(string \<Rightarrow> pynum option) \<Rightarrow> string option \<Rightarrow> pynum action" where
  "get_over_voltage_protection pfloat min_max =
     and_then
       (case min_max of
          None \<Rightarrow> write_line ''VOLT:PROT?''
        | Some m \<Rightarrow>
            if m = ''MIN'' then write_line ''VOLT:PROT? MIN''
            else if m = ''MAX'' then write_line ''VOLT:PROT? MAX''
            else pass)
       (\<lambda>_. and_then read (to_float pfloat))"

definition set_falling_current_slew_rate :: "(real \<Rightarrow> string) \<Rightarrow> pynum \<Rightarrow> unit action" where
  "set_falling_current_slew_rate repr slew_rate s =
     (if py_lt (current_min_falling_slew_rate s) slew_rate \<and> py_lt slew_rate (current_max_falling_slew_rate s)
      then write_line (''CURR:SLEW:FALL '' @ py_str repr slew_rate) s
      else warning
        (''Warning: Set falling current slew rate is out of power supply absolute ratings. '' @
         ''Command has been ignored.'') s)"

definition get_falling_current_slew_rate :: "(string \<Rightarrow> pynum option) \<Rightarrow> string option \<Rightarrow> pynum action" where
  "get_falling_current_slew_rate pfloat min_max =
     and_then
       (case min_max of
          None \<Rightarrow> write_line ''CURR:SLEW:FALL?''
        | Some m \<Rightarrow>
            if m = ''MIN'' then write_line ''CURR:SLEW:FALL? MIN''
            else if m = ''MAX'' then write_line ''CURR:SLEW:FALL? MAX''
            else pass)
       (\<lambda>_. and_then read (to_float pfloat))"

definition set_voltage :: "(real \<Rightarrow> string) \<Rightarrow> pynum \<Rightarrow> unit action" where
  "set_voltage repr voltage_value s =
     (if py_lt (min_voltage s) voltage_value \<and> py_lt voltage_value (max_voltage s)
      then write_line (''VOLT '' @ py_str repr voltage_value) s
      else warning
        (''Warning: Set voltage target is out of power supply absolute ratings. '' @
         ''Command has been ignored.'') s)"

definition get_voltage :: "(string \<Rightarrow> pynum option) \<Rightarrow> string option \<Rightarrow> pynum action" where
  "get_voltage pfloat min_max =
     and_then
       (case min_max of
          None \<Rightarrow> write_line ''VOLT?''
        | Some m \<Rightarrow>
            if m = ''MAX'' then write_line ''VOLT? MAX''
            else if m = ''MIN'' then write_line ''VOLT? MIN''
            else pass)
       (\<lambda>_. and_then read (to_float pfloat))"

definition set_rising_voltage_slew_rate :: "(real \<Rightarrow> string) \<Rightarrow> pynum \<Rightarrow> unit action" where
  "set_rising_voltage_slew_rate repr slew_rate s =
     (if py_lt (voltage_min_rising_slew_rate s) slew_rate \<and> py_lt slew_rate (voltage_max_rising_slew_rate s)
      then write_line (''VOLT:SLEW:RIS '' @ py_str repr slew_rate) s
      else warning
        (''Warning: Set rising voltage slew rate is out of power supply absolute ratings. '' @
         ''Command has been ignored.'') s)"

definition get_rising_voltage_slew_rate :: "(string \<Rightarrow> pynum option) \<Rightarrow> string option \<Rightarrow> pynum action" where
  "get_rising_voltage_slew_rate pfloat min_max =
     and_then
       (case min_max of
          None \<Rightarrow> write_line ''VOLT:SLEW:RIS?''
        | Some m \<Rightarrow>
            if m = ''MIN'' then write_line ''VOLT:SLEW:RIS? MIN''
            else if m = ''MAX'' then write_line ''VOLT:SLEW:RIS? MAX''
            else pass)
       (\<lambda>_. and_then read (to_float pfloat))"

definition set_falling_voltage_slew_rate :: "(real \<Rightarrow> string) \<Rightarrow> pynum \<Rightarrow> unit action" where
  "set_falling_voltage_slew_rate repr slew_rate s =
     (if py_lt (voltage_min_falling_slew_rate s) slew_rate \<and> py_lt slew_rate (voltage_max_falling_slew_rate s)
      then write_line (''VOLT:SLEW:FALL '' @ py_str repr slew_rate) s
      else warning
        (''Warning: Set falling voltage slew rate is out of power supply absolute ratings. '' @
         ''Command has been ignored.'') s)"

definition get_falling_voltage_slew_rate :: "(string \<Rightarrow> pynum option) \<Rightarrow> string option \<Rightarrow> pynum action" where
  "get_falling_voltage_slew_rate pfloat min_max =
     and_then
       (case min_max of
          None \<Rightarrow> write_line ''VOLT:SLEW:FALL?''
        | Some m \<Rightarrow>
            if m = ''MIN'' then write_line ''VOLT:SLEW:FALL? MIN''
            else if m = ''MAX'' then write_line ''VOLT:SLEW:FALL? MAX''
            else pass)
       (\<lambda>_. and_then read (to_float pfloat))"

definition get_power_supply_info :: "unit action" where
  "get_power_supply_info =
     and_then (write_line ''SYST:INF?'') (\<lambda>_.
     and_then read (\<lambda>text s. (Inr (), s\<lparr>ps_info_string := text\<rparr>)))"

section \<open>The sampler\<close>

text \<open>
  \<^verbatim>\<open>RLock.acquire\<close> and \<^verbatim>\<open>RLock.release\<close> called by thread \<open>tid\<close>. A lock owned by
  another thread makes \<^verbatim>\<open>acquire\<close> wait; no owner in this class ever releases the
  lock while another thread waits for it, so the wait does not end.
\<close>

definition acquire :: "nat \<Rightarrow> unit action" where
  "acquire tid s =
     (case lock s of
        None \<Rightarrow> (Inr (), emit (Acquire tid) (s\<lparr>lock := Some (tid, 1)\<rparr>))
      | Some (owner, n) \<Rightarrow>
          if owner = tid then (Inr (), emit (Acquire tid) (s\<lparr>lock := Some (tid, Suc n)\<rparr>))
          else (Inl Blocked, s))"

definition release :: "nat \<Rightarrow> unit action" where
  "release tid s =
     (case lock s of
        None \<Rightarrow> (Inl RuntimeError, s)
      | Some (owner, n) \<Rightarrow>
          if owner = tid
          then (Inr (), emit (Release tid) (s\<lparr>lock := (if n \<le> 1 then None else Some (tid, n - 1))\<rparr>))
          else (Inl RuntimeError, s))"

definition append_voltage :: "pynum \<Rightarrow> unit action" where
  "append_voltage v s = (Inr (), emit (AppendVoltage v) (s\<lparr>data_voltage := data_voltage s @ [v]\<rparr>))"

definition append_current :: "pynum \<Rightarrow> unit action" where
  "append_current v s = (Inr (), emit (AppendCurrent v) (s\<lparr>data_current := data_current s @ [v]\<rparr>))"

definition append_power :: "pynum \<Rightarrow> unit action" where
  "append_power v s = (Inr (), emit (AppendPower v) (s\<lparr>data_power := data_power s @ [v]\<rparr>))"

text \<open>The body of the \<^verbatim>\<open>while\<close> loop of \<^verbatim>\<open>_read_power_supply_data\<close>, run by thread \<open>tid\<close>.\<close>

definition loop_body :: "(string \<Rightarrow> pynum option) \<Rightarrow> nat \<Rightarrow> unit action" where
  "loop_body pfloat tid =
     and_then (acquire tid) (\<lambda>_.
     and_then (measure_voltage pfloat) (\<lambda>v.
     and_then (append_voltage v) (\<lambda>_.
     and_then (measure_current pfloat) (\<lambda>i.
     and_then (append_current i) (\<lambda>_.
     and_then (measure_power pfloat) (\<lambda>p.
     and_then (append_power p) (\<lambda>_.
     and_then (release tid) (\<lambda>_.
     sleep 50))))))))"


text \<open>
  Threads. The sampler thread runs \<^verbatim>\<open>_read_power_supply_data\<close> beside the caller's
  thread. One turn of its loop (the test of the flag and, when it is set, the body) is
  one step of the interleaving: \<open>thread_turn\<close> is what the scheduler does when it lets
  thread \<open>tid\<close> make a turn between two calls of the caller. An exception ends the
  thread and stays inside it; a read that waits for ever leaves it stuck.
\<close>

definition thread_status :: "nat \<Rightarrow> keithley_2260B \<Rightarrow> thread_state" where
  "thread_status tid s = (if tid < length (threads s) then threads s ! tid else Unstarted)"

definition set_status :: "nat \<Rightarrow> thread_state \<Rightarrow> keithley_2260B \<Rightarrow> keithley_2260B" where
  "set_status tid st s = s\<lparr>threads := (threads s)[tid := st]\<rparr>"

definition finish :: "nat \<Rightarrow> (error + unit) \<times> keithley_2260B \<Rightarrow> keithley_2260B" where
  "finish tid out =
     (case out of
        (Inr u, s') \<Rightarrow> set_status tid Done s'
      | (Inl e, s') \<Rightarrow> set_status tid (if e = Blocked then Stuck else Done) s')"

definition thread_turn :: "(string \<Rightarrow> pynum option) \<Rightarrow> nat \<Rightarrow> keithley_2260B \<Rightarrow> keithley_2260B" where
  "thread_turn pfloat tid s =
     (if thread_status tid s = Running
      then (if reading_thread_active s
            then (case loop_body pfloat tid s of
                    (Inr u, s') \<Rightarrow> s'
                  | (Inl e, s') \<Rightarrow> finish tid (Inl e, s'))
            else set_status tid Done s)
      else s)"


definition set_reading_thread_active :: "bool \<Rightarrow> unit action" where
  "set_reading_thread_active b s = (Inr (), emit (SetFlag b) (s\<lparr>reading_thread_active := b\<rparr>))"

definition new_thread :: "unit action" where
  "new_thread s = (Inr (), s\<lparr>threads := threads s @ [Unstarted], ps_thread := length (threads s)\<rparr>)"

definition thread_start :: "unit action" where
  "thread_start s =
     (if thread_status (ps_thread s) s = Unstarted
      then (Inr (), emit (ThreadStart (ps_thread s)) (set_status (ps_thread s) Running s))
      else (Inl RuntimeError, s))"

definition start_thread_power_supply_data :: "unit action" where
  "start_thread_power_supply_data =
     and_then (set_reading_thread_active True) (\<lambda>_.
     and_then new_thread (\<lambda>_.
     thread_start))"






definition start_power_supply :: "unit action" where
  "start_power_supply = and_then power_supply_on (\<lambda>_. start_thread_power_supply_data)"


section \<open>Construction\<close>

text \<open>
  The class attributes (every number \<^verbatim>\<open>0.0\<close>) and a port on which the device will
  send the lines \<open>script\<close>; the attributes that \<^verbatim>\<open>__init__\<close> creates later hold
  placeholders until then.
\<close>

definition class_attributes :: "string list \<Rightarrow> keithley_2260B" where
  "class_attributes script =
     \<lparr> ps_info_string = [],
       max_voltage = PyFloat 0, min_voltage = PyFloat 0,
       max_current = PyFloat 0, min_current = PyFloat 0,
       max_power = PyFloat 0,
       over_current_protection_min = PyFloat 0, over_current_protection_max = PyFloat 0,
       over_voltage_protection_min = PyFloat 0, over_voltage_protection_max = PyFloat 0,
       current_max_rising_slew_rate = PyFloat 0, current_min_rising_slew_rate = PyFloat 0,
       current_max_falling_slew_rate = PyFloat 0, current_min_falling_slew_rate = PyFloat 0,
       voltage_max_rising_slew_rate = PyFloat 0, voltage_min_rising_slew_rate = PyFloat 0,
       voltage_max_falling_slew_rate = PyFloat 0, voltage_min_falling_slew_rate = PyFloat 0,
       internal_resistance_min = PyFloat 0, internal_resistance_max = PyFloat 0,
       dev_in = script, trace = [], lock = None, reading_thread_active = False,
       threads = [], ps_thread = 0,
       data_current = [], data_voltage = [], data_power = [] \<rparr>"

definition assign :: "(keithley_2260B \<Rightarrow> keithley_2260B) \<Rightarrow> unit action" where
  "assign f s = (Inr (), f s)"

definition init :: "(string \<Rightarrow> pynum option) \<Rightarrow> pynum \<Rightarrow> unit action" where
  "init pfloat max_power_arg =
     and_then (assign (\<lambda>s. s\<lparr>max_power := max_power_arg\<rparr>)) (\<lambda>_.
     and_then get_power_supply_info (\<lambda>_.
     and_then (get_current pfloat (Some ''MAX'')) (\<lambda>v.
     and_then (assign (\<lambda>s. s\<lparr>max_current := v\<rparr>)) (\<lambda>_.
     and_then (get_current pfloat (Some ''MIN'')) (\<lambda>v.
     and_then (assign (\<lambda>s. s\<lparr>min_current := v\<rparr>)) (\<lambda>_.
     and_then (get_voltage pfloat (Some ''MAX'')) (\<lambda>v.
     and_then (assign (\<lambda>s. s\<lparr>max_voltage := v\<rparr>)) (\<lambda>_.
     and_then (get_voltage pfloat (Some ''MIN'')) (\<lambda>v.
     and_then (assign (\<lambda>s. s\<lparr>min_voltage := v\<rparr>)) (\<lambda>_.
     and_then (get_rising_current_slew_rate pfloat (Some ''MAX'')) (\<lambda>v.
     and_then (assign (\<lambda>s. s\<lparr>current_max_rising_slew_rate := v\<rparr>)) (\<lambda>_.
     and_then (get_rising_current_slew_rate pfloat (Some ''MIN'')) (\<lambda>v.
     and_then (assign (\<lambda>s. s\<lparr>current_min_rising_slew_rate := v\<rparr>)) (\<lambda>_.
     and_then (get_falling_current_slew_rate pfloat (Some ''MAX'')) (\<lambda>v.
     and_then (assign (\<lambda>s. s\<lparr>current_max_falling_slew_rate := v\<rparr>)) (\<lambda>_.
     and_then (get_falling_current_slew_rate pfloat (Some ''MIN'')) (\<lambda>v.
     and_then (assign (\<lambda>s. s\<lparr>current_min_falling_slew_rate := v\<rparr>)) (\<lambda>_.
     and_then (get_rising_voltage_slew_rate pfloat (Some ''MAX'')) (\<lambda>v.
     and_then (assign (\<lambda>s. s\<lparr>voltage_max_rising_slew_rate := v\<rparr>)) (\<lambda>_.
     and_then (get_rising_voltage_slew_rate pfloat (Some ''MIN'')) (\<lambda>v.
     and_then (assign (\<lambda>s. s\<lparr>voltage_min_rising_slew_rate := v\<rparr>)) (\<lambda>_.
     and_then (get_falling_voltage_slew_rate pfloat (Some ''MAX'')) (\<lambda>v.
     and_then (assign (\<lambda>s. s\<lparr>voltage_max_falling_slew_rate := v\<rparr>)) (\<lambda>_.
     and_then (get_falling_voltage_slew_rate pfloat (Some ''MIN'')) (\<lambda>v.
     and_then (assign (\<lambda>s. s\<lparr>voltage_min_falling_slew_rate := v\<rparr>)) (\<lambda>_.
     and_then (get_internal_resistance pfloat (Some ''MIN'')) (\<lambda>v.
     and_then (assign (\<lambda>s. s\<lparr>internal_resistance_min := v\<rparr>)) (\<lambda>_.
     and_then (get_internal_resistance pfloat (Some ''MAX'')) (\<lambda>v.
     and_then (assign (\<lambda>s. s\<lparr>internal_resistance_max := v\<rparr>)) (\<lambda>_.
     and_then (get_over_current_protection pfloat (Some ''MIN'')) (\<lambda>v.
     and_then (assign (\<lambda>s. s\<lparr>over_current_protection_min := v\<rparr>)) (\<lambda>_.
     and_then (get_over_current_protection pfloat (Some ''MAX'')) (\<lambda>v.
     and_then (assign (\<lambda>s. s\<lparr>over_current_protection_max := v\<rparr>)) (\<lambda>_.
     and_then (get_over_voltage_protection pfloat (Some ''MIN'')) (\<lambda>v.
     and_then (assign (\<lambda>s. s\<lparr>over_voltage_protection_min := v\<rparr>)) (\<lambda>_.
     and_then (get_over_voltage_protection pfloat (Some ''MAX'')) (\<lambda>v.
     and_then (assign (\<lambda>s. s\<lparr>over_voltage_protection_max := v\<rparr>)) (\<lambda>_.
     and_then (assign (\<lambda>s. s\<lparr>lock := None\<rparr>)) (\<lambda>_.
     and_then (assign (\<lambda>s. s\<lparr>reading_thread_active := False\<rparr>)) (\<lambda>_.
     and_then new_thread (\<lambda>_.
     and_then (assign (\<lambda>s. s\<lparr>data_current := []\<rparr>)) (\<lambda>_.
     and_then (assign (\<lambda>s. s\<lparr>data_voltage := []\<rparr>)) (\<lambda>_.
     assign (\<lambda>s. s\<lparr>data_power := []\<rparr>))))))))))))))))))))))))))))))))))))))))))))"

section \<open>Observations on the trace\<close>

text \<open>The events a call added to the trace, and among events the bytes written and the warnings.\<close>

definition emitted :: "keithley_2260B \<Rightarrow> keithley_2260B \<Rightarrow> event list" where
  "emitted s s' = drop (length (trace s)) (trace s')"

fun written :: "event list \<Rightarrow> string list" where
  "written [] = []"
| "written (Write b # es) = b # written es"
| "written (e # es) = written es"

fun warnings :: "event list \<Rightarrow> string list" where
  "warnings [] = []"
| "warnings (Warning w # es) = w # warnings es"
| "warnings (e # es) = warnings es"

text \<open>The nine parameters with a getter, a setter and a pair of cached bounds.\<close>

datatype param =
    Voltage | Current | InternalResistance | OverCurrentProtection | OverVoltageProtection
  | RisingCurrentSlewRate | FallingCurrentSlewRate | RisingVoltageSlewRate | FallingVoltageSlewRate

fun command_word :: "param \<Rightarrow> string" where
  "command_word Voltage = ''VOLT''"
| "command_word Current = ''CURR''"
| "command_word InternalResistance = ''RES''"
| "command_word OverCurrentProtection = ''CURR:PROT''"
| "command_word OverVoltageProtection = ''VOLT:PROT''"
| "command_word RisingCurrentSlewRate = ''CURR:SLEW:RIS''"
| "command_word FallingCurrentSlewRate = ''CURR:SLEW:FALL''"
| "command_word RisingVoltageSlewRate = ''VOLT:SLEW:RIS''"
| "command_word FallingVoltageSlewRate = ''VOLT:SLEW:FALL''"

fun cached_min :: "param \<Rightarrow> keithley_2260B \<Rightarrow> pynum" where
  "cached_min Voltage = min_voltage"
| "cached_min Current = min_current"
| "cached_min InternalResistance = internal_resistance_min"
| "cached_min OverCurrentProtection = over_current_protection_min"
| "cached_min OverVoltageProtection = over_voltage_protection_min"
| "cached_min RisingCurrentSlewRate = current_min_rising_slew_rate"
| "cached_min FallingCurrentSlewRate = current_min_falling_slew_rate"
| "cached_min RisingVoltageSlewRate = voltage_min_rising_slew_rate"
| "cached_min FallingVoltageSlewRate = voltage_min_falling_slew_rate"

fun cached_max :: "param \<Rightarrow> keithley_2260B \<Rightarrow> pynum" where
  "cached_max Voltage = max_voltage"
| "cached_max Current = max_current"
| "cached_max InternalResistance = internal_resistance_max"
| "cached_max OverCurrentProtection = over_current_protection_max"
| "cached_max OverVoltageProtection = over_voltage_protection_max"
| "cached_max RisingCurrentSlewRate = current_max_rising_slew_rate"
| "cached_max FallingCurrentSlewRate = current_max_falling_slew_rate"
| "cached_max RisingVoltageSlewRate = voltage_max_rising_slew_rate"
| "cached_max FallingVoltageSlewRate = voltage_max_falling_slew_rate"

fun setter :: "param \<Rightarrow> (real \<Rightarrow> string) \<Rightarrow> pynum \<Rightarrow> unit action" where
  "setter Voltage = set_voltage"
| "setter Current = set_current"
| "setter InternalResistance = set_internal_resistance"
| "setter OverCurrentProtection = set_over_current_protection"
| "setter OverVoltageProtection = set_over_voltage_protection"
| "setter RisingCurrentSlewRate = set_rising_current_slew_rate"
| "setter FallingCurrentSlewRate = set_falling_current_slew_rate"
| "setter RisingVoltageSlewRate = set_rising_voltage_slew_rate"
| "setter FallingVoltageSlewRate = set_falling_voltage_slew_rate"

fun getter :: "param \<Rightarrow> (string \<Rightarrow> pynum option) \<Rightarrow> string option \<Rightarrow> pynum action" where
  "getter Voltage = get_voltage"
| "getter Current = get_current"
| "getter InternalResistance = get_internal_resistance"
| "getter OverCurrentProtection = get_over_current_protection"
| "getter OverVoltageProtection = get_over_voltage_protection"
| "getter RisingCurrentSlewRate = get_rising_current_slew_rate"
| "getter FallingCurrentSlewRate = get_falling_current_slew_rate"
| "getter RisingVoltageSlewRate = get_rising_voltage_slew_rate"
| "getter FallingVoltageSlewRate = get_falling_voltage_slew_rate"

section \<open>An example session\<close>

text \<open>
  A device in the style of the 2260B-30-108: the replies it gives to the nineteen
  queries of \<^verbatim>\<open>__init__\<close>, the value of \<^verbatim>\<open>float\<close> on the replies used in the
  examples, and \<^verbatim>\<open>str\<close> and \<^verbatim>\<open>%.18e\<close> on the finite floats used there.
\<close>

definition float_table :: "string \<Rightarrow> pynum option" where
  "float_table = map_of
     [(''113.4'', PyFloat 113.4), (''0.000'', PyFloat 0), (''31.5'', PyFloat 31.5),
      (''216.0'', PyFloat 216), (''0.1'', PyFloat 0.1), (''60.0'', PyFloat 60),
      (''0.278'', PyFloat 0.278), (''10.8'', PyFloat 10.8), (''118.8'', PyFloat 118.8),
      (''3.0'', PyFloat 3), (''33.0'', PyFloat 33),
      (''12.0'', PyFloat 12), (''1.5'', PyFloat 1.5), (''18.0'', PyFloat 18)]"

definition demo_repr :: "real \<Rightarrow> string" where
  "demo_repr x = (if x = 12 then ''12.0'' else if x = 1.5 then ''1.5'' else ''18.0'')"


definition demo_queries :: "string list" where
  "demo_queries =
     [''SYST:INF?'', ''CURR? MAX'', ''CURR? MIN'', ''VOLT? MAX'', ''VOLT? MIN'',
      ''CURR:SLEW:RIS? MAX'', ''CURR:SLEW:RIS? MIN'', ''CURR:SLEW:FALL? MAX'', ''CURR:SLEW:FALL? MIN'',
      ''VOLT:SLEW:RIS? MAX'', ''VOLT:SLEW:RIS? MIN'', ''VOLT:SLEW:FALL? MAX'', ''VOLT:SLEW:FALL? MIN'',
      ''RES? MIN'', ''RES? MAX'', ''CURR:PROT? MIN'', ''CURR:PROT? MAX'',
      ''VOLT:PROT? MIN'', ''VOLT:PROT? MAX'']"

definition demo_script :: "string list" where
  "demo_script = map (\<lambda>l. l @ [CHR 0x0A])
     [''KEITHLEY,2260B-30-108'', ''113.4'', ''0.000'', ''31.5'', ''0.000'',
      ''216.0'', ''0.1'', ''216.0'', ''0.1'', ''60.0'', ''0.1'', ''60.0'', ''0.1'',
      ''0.000'', ''0.278'', ''10.8'', ''118.8'', ''3.0'', ''33.0'']"

text \<open>The object that \<^verbatim>\<open>keithley_2260B(1080, ...)\<close> returns on that device (\<open>init_demo\<close> below).\<close>

definition demo :: keithley_2260B where
  "demo =
     \<lparr> ps_info_string = ''KEITHLEY,2260B-30-108'',
       max_voltage = PyFloat 31.5, min_voltage = PyFloat 0,
       max_current = PyFloat 113.4, min_current = PyFloat 0,
       max_power = PyInt 1080,
       over_current_protection_min = PyFloat 10.8, over_current_protection_max = PyFloat 118.8,
       over_voltage_protection_min = PyFloat 3, over_voltage_protection_max = PyFloat 33,
       current_max_rising_slew_rate = PyFloat 216, current_min_rising_slew_rate = PyFloat 0.1,
       current_max_falling_slew_rate = PyFloat 216, current_min_falling_slew_rate = PyFloat 0.1,
       voltage_max_rising_slew_rate = PyFloat 60, voltage_min_rising_slew_rate = PyFloat 0.1,
       voltage_max_falling_slew_rate = PyFloat 60, voltage_min_falling_slew_rate = PyFloat 0.1,
       internal_resistance_min = PyFloat 0, internal_resistance_max = PyFloat 0.278,
       dev_in = [],
       trace = concat (map2 (\<lambda>q l. [Write (q @ [CHR 0x0A]), ReadLine l]) demo_queries demo_script),
       lock = None, reading_thread_active = False,
       threads = [Unstarted], ps_thread = 0,
       data_current = [], data_voltage = [], data_power = [] \<rparr>"

text \<open>
  A first sampling run on the example object, with the three replies of one turn of the
  loop on their way: the object after \<^verbatim>\<open>start_thread_power_supply_data\<close> (the new
  thread object has index 1), after one turn of the loop, after
  \<^verbatim>\<open>stop_thread_power_supply_data\<close>, and after a second
  \<^verbatim>\<open>start_thread_power_supply_data\<close>.
\<close>

definition sampling :: keithley_2260B where
  "sampling =
     demo\<lparr>dev_in := [''12.0'' @ [CHR 0x0A], ''1.5'' @ [CHR 0x0A], ''18.0'' @ [CHR 0x0A]],
          reading_thread_active := True, threads := [Unstarted, Running], ps_thread := 1,
          trace := trace demo @ [SetFlag True, ThreadStart 1]\<rparr>"

definition sampled :: keithley_2260B where
  "sampled =
     sampling\<lparr>dev_in := [],
        data_voltage := [PyFloat 12], data_current := [PyFloat 1.5], data_power := [PyFloat 18],
        trace := trace sampling @
          [Acquire 1,
           Write (''MEAS:VOLT?'' @ [CHR 0x0A]), ReadLine (''12.0'' @ [CHR 0x0A]), AppendVoltage (PyFloat 12),
           Write (''MEAS:CURR?'' @ [CHR 0x0A]), ReadLine (''1.5'' @ [CHR 0x0A]), AppendCurrent (PyFloat 1.5),
           Write (''MEAS:POW?'' @ [CHR 0x0A]), ReadLine (''18.0'' @ [CHR 0x0A]), AppendPower (PyFloat 18),
           Release 1, Sleep 50]\<rparr>"



section \<open>Termination of the sampling loop\<close>









section \<open>Basic facts\<close>

lemmas getter_defs = get_current_def get_voltage_def get_rising_current_slew_rate_def
  get_falling_current_slew_rate_def get_rising_voltage_slew_rate_def
  get_falling_voltage_slew_rate_def get_internal_resistance_def
  get_over_current_protection_def get_over_voltage_protection_def

lemmas setter_defs = set_current_def set_voltage_def set_rising_current_slew_rate_def
  set_falling_current_slew_rate_def set_rising_voltage_slew_rate_def
  set_falling_voltage_slew_rate_def set_internal_resistance_def
  set_over_current_protection_def set_over_voltage_protection_def

lemma emitted_emit1 [simp]: "emitted s (emit e s) = [e]"
  by (simp add: emitted_def emit_def)

lemma emitted_self [simp]: "emitted s s = []"
  by (simp add: emitted_def)

lemma str_int_10: "str_int 10 = ''10''"
  by (simp add: str_int_def digits.simps)

lemma str_int_50: "str_int 50 = ''50''"
  by (simp add: str_int_def digits.simps)

text \<open>The example object is what the constructor builds on the example device.\<close>

lemma init_demo:
  "init float_table (PyInt 1080) (class_attributes (demo_script @ rest)) = (Inr (), demo\<lparr>dev_in := rest\<rparr>)"
  by (simp add: init_def and_then_def assign_def get_power_supply_info_def getter_defs
      new_thread_def write_line_def read_def to_float_def emit_def class_attributes_def
      demo_script_def demo_queries_def demo_def float_table_def strip_def isspace_def)

section \<open>Bounds checks of the setters\<close>

text \<open>
  C3. \<^verbatim>\<open>set_voltage_current(v, i)\<close> never raises; it writes the one line
  \<^verbatim>\<open>APPL <v>,<i>\<close> exactly when \<open>v\<close> lies strictly between the cached voltage bounds
  and \<open>i\<close> strictly between the cached current bounds; otherwise it writes nothing and
  logs one warning.
\<close>

theorem set_voltage_current_iff:
  "fst (set_voltage_current repr voltage current s) = Inr () \<and>
   (written (emitted s (snd (set_voltage_current repr voltage current s))) =
      [''APPL '' @ py_str repr voltage @ '','' @ py_str repr current @ [CHR 0x0A]]
    \<longleftrightarrow> (py_lt (min_voltage s) voltage \<and> py_lt voltage (max_voltage s)) \<and>
        (py_lt (min_current s) current \<and> py_lt current (max_current s))) \<and>
   (\<not> ((py_lt (min_voltage s) voltage \<and> py_lt voltage (max_voltage s)) \<and>
        (py_lt (min_current s) current \<and> py_lt current (max_current s)))
    \<longrightarrow> written (emitted s (snd (set_voltage_current repr voltage current s))) = [] \<and>
        warnings (emitted s (snd (set_voltage_current repr voltage current s))) =
          [''Warning: Set voltage or current out of power supply absolute ratings. '' @
           ''Command has been ignored.''])"
  by (simp add: set_voltage_current_def write_line_def warning_def)

theorem set_voltage_current_iff_witness:
  "((py_lt (min_voltage demo) (PyInt 10) \<and> py_lt (PyInt 10) (max_voltage demo)) \<and>
    (py_lt (min_current demo) (PyInt 50) \<and> py_lt (PyInt 50) (max_current demo))) \<and>
   written (emitted demo (snd (set_voltage_current demo_repr (PyInt 10) (PyInt 50) demo))) =
     [''APPL 10,50'' @ [CHR 0x0A]] \<and>
   \<not> ((py_lt (min_voltage demo) (PyInt 40) \<and> py_lt (PyInt 40) (max_voltage demo)) \<and>
       (py_lt (min_current demo) (PyInt 50) \<and> py_lt (PyInt 50) (max_current demo))) \<and>
   written (emitted demo (snd (set_voltage_current demo_repr (PyInt 40) (PyInt 50) demo))) = []"
  using set_voltage_current_iff [of demo_repr "PyInt 10" "PyInt 50" demo]
        set_voltage_current_iff [of demo_repr "PyInt 40" "PyInt 50" demo]
  by (simp add: demo_def str_int_10 str_int_50)

section \<open>Operating mode\<close>

text \<open>
  C4. For every string \<open>m\<close>, \<^verbatim>\<open>set_power_supply_mode(m)\<close> never raises; it writes the
  line \<^verbatim>\<open>OUTP:MODE <m>\<close> exactly when \<open>m\<close> is one of CVHS, CCHS, CVLS, CCLS; for any
  other string it writes nothing and logs one warning.
\<close>

theorem set_power_supply_mode_iff:
  "fst (set_power_supply_mode m s) = Inr () \<and>
   (written (emitted s (snd (set_power_supply_mode m s))) = [''OUTP:MODE '' @ m @ [CHR 0x0A]]
    \<longleftrightarrow> m \<in> {''CVHS'', ''CCHS'', ''CVLS'', ''CCLS''}) \<and>
   (m \<notin> {''CVHS'', ''CCHS'', ''CVLS'', ''CCLS''}
    \<longrightarrow> written (emitted s (snd (set_power_supply_mode m s))) = [] \<and>
        warnings (emitted s (snd (set_power_supply_mode m s))) =
          [''Warning: Malformed string for power supply mode command. '' @
           ''Command has been ignored.''])"
  by (simp add: set_power_supply_mode_def write_line_def warning_def)

theorem set_power_supply_mode_iff_witness:
  "''CVHS'' \<in> {''CVHS'', ''CCHS'', ''CVLS'', ''CCLS''} \<and>
   written (emitted demo (snd (set_power_supply_mode ''CVHS'' demo))) = [''OUTP:MODE CVHS'' @ [CHR 0x0A]] \<and>
   ''cvhs'' \<notin> {''CVHS'', ''CCHS'', ''CVLS'', ''CCLS''} \<and>
   written (emitted demo (snd (set_power_supply_mode ''cvhs'' demo))) = [] \<and>
   warnings (emitted demo (snd (set_power_supply_mode ''cvhs'' demo))) =
     [''Warning: Malformed string for power supply mode command. Command has been ignored.'']"
  using set_power_supply_mode_iff [of "''CVHS''" demo] set_power_supply_mode_iff [of "''cvhs''" demo]
  by simp

text \<open>
  C5. For every reply of the device, read as \<^verbatim>\<open>read()\<close> returns it (the line without
  its terminator and surrounding whitespace), \<^verbatim>\<open>get_power_supply_mode()\<close> returns
  CVHS for \<^verbatim>\<open>0\<close>, CCHS for \<^verbatim>\<open>1\<close>, CVLS for \<^verbatim>\<open>2\<close>, CCLS for \<^verbatim>\<open>3\<close> and the empty string
  for any other reply; no reply makes it raise.
\<close>

theorem get_power_supply_mode_table:
  assumes "dev_in s = l # ls"
  shows "(strip l = ''0'' \<longrightarrow> fst (get_power_supply_mode s) = Inr ''CVHS'') \<and>
         (strip l = ''1'' \<longrightarrow> fst (get_power_supply_mode s) = Inr ''CCHS'') \<and>
         (strip l = ''2'' \<longrightarrow> fst (get_power_supply_mode s) = Inr ''CVLS'') \<and>
         (strip l = ''3'' \<longrightarrow> fst (get_power_supply_mode s) = Inr ''CCLS'') \<and>
         (strip l \<notin> {''0'', ''1'', ''2'', ''3''} \<longrightarrow> fst (get_power_supply_mode s) = Inr '''')"
  using assms
  by (simp add: get_power_supply_mode_def and_then_def write_line_def read_def emit_def)

theorem get_power_supply_mode_table_witness:
  "dev_in (demo\<lparr>dev_in := [''2'' @ [CHR 0x0A]]\<rparr>) = [''2'' @ [CHR 0x0A]] \<and>
   strip (''2'' @ [CHR 0x0A]) = ''2'' \<and>
   fst (get_power_supply_mode (demo\<lparr>dev_in := [''2'' @ [CHR 0x0A]]\<rparr>)) = Inr ''CVLS'' \<and>
   dev_in (demo\<lparr>dev_in := [''7'' @ [CHR 0x0A]]\<rparr>) = [''7'' @ [CHR 0x0A]] \<and>
   strip (''7'' @ [CHR 0x0A]) \<notin> {''0'', ''1'', ''2'', ''3''} \<and>
   fst (get_power_supply_mode (demo\<lparr>dev_in := [''7'' @ [CHR 0x0A]]\<rparr>)) = Inr ''''"
  using get_power_supply_mode_table [of "demo\<lparr>dev_in := [''2'' @ [CHR 0x0A]]\<rparr>" "''2'' @ [CHR 0x0A]" "[]"]
        get_power_supply_mode_table [of "demo\<lparr>dev_in := [''7'' @ [CHR 0x0A]]\<rparr>" "''7'' @ [CHR 0x0A]" "[]"]
  by (simp add: strip_def isspace_def)

section \<open>The getters\<close>

text \<open>
  C7. Every getter called with no bound, with \<^verbatim>\<open>"MIN"\<close> or with \<^verbatim>\<open>"MAX"\<close> writes its
  query, takes the one reply line and returns \<^verbatim>\<open>float\<close> of its text; when the text is
  not a number the getter itself ends with the \<^verbatim>\<open>ValueError\<close>: nothing in it catches
  the exception, so its caller receives it.
\<close>

theorem getter_parses_reply:
  assumes "min_max \<in> {None, Some ''MIN'', Some ''MAX''}" and "dev_in s = l # ls"
  shows "fst (getter P pfloat min_max s) =
           (case pfloat (strip l) of Some v \<Rightarrow> Inr v | None \<Rightarrow> Inl ValueError) \<and>
         emitted s (snd (getter P pfloat min_max s)) =
           [Write (command_word P @ ''?'' @ (case min_max of None \<Rightarrow> [] | Some m \<Rightarrow> '' '' @ m) @ [CHR 0x0A]),
            ReadLine l]"
  using assms
  by (cases P)
     (auto simp: getter_defs and_then_def write_line_def read_def to_float_def emit_def
                 emitted_def pass_def split: option.splits)

theorem getter_parses_reply_witness:
  "None \<in> {None, Some ''MIN'', Some ''MAX''} \<and>
   dev_in (demo\<lparr>dev_in := [''12.0'' @ [CHR 0x0A]]\<rparr>) = [''12.0'' @ [CHR 0x0A]] \<and>
   fst (getter Voltage float_table None (demo\<lparr>dev_in := [''12.0'' @ [CHR 0x0A]]\<rparr>)) = Inr (PyFloat 12) \<and>
   Some ''MAX'' \<in> {None, Some ''MIN'', Some ''MAX''} \<and>
   dev_in (demo\<lparr>dev_in := [''abc'' @ [CHR 0x0A]]\<rparr>) = [''abc'' @ [CHR 0x0A]] \<and>
   fst (getter Current float_table (Some ''MAX'') (demo\<lparr>dev_in := [''abc'' @ [CHR 0x0A]]\<rparr>)) = Inl ValueError \<and>
   emitted (demo\<lparr>dev_in := [''abc'' @ [CHR 0x0A]]\<rparr>)
     (snd (getter Current float_table (Some ''MAX'') (demo\<lparr>dev_in := [''abc'' @ [CHR 0x0A]]\<rparr>))) =
     [Write (''CURR? MAX'' @ [CHR 0x0A]), ReadLine (''abc'' @ [CHR 0x0A])]"
  using getter_parses_reply [of None "demo\<lparr>dev_in := [''12.0'' @ [CHR 0x0A]]\<rparr>" "''12.0'' @ [CHR 0x0A]" "[]" Voltage float_table]
        getter_parses_reply [of "Some ''MAX''" "demo\<lparr>dev_in := [''abc'' @ [CHR 0x0A]]\<rparr>" "''abc'' @ [CHR 0x0A]" "[]" Current float_table]
  by (simp add: strip_def isspace_def float_table_def)

text \<open>
  C9. Every getter called with a bound argument other than \<^verbatim>\<open>None\<close>, \<^verbatim>\<open>"MIN"\<close> and
  \<^verbatim>\<open>"MAX"\<close> (such as \<^verbatim>\<open>"min"\<close>) writes nothing to the port and still reads a line:
  with no line to come it waits for ever, and a line that comes is taken and given to
  \<^verbatim>\<open>float\<close>.
\<close>

theorem getter_unknown_bound_reads_without_query:
  assumes "m \<noteq> ''MIN''" and "m \<noteq> ''MAX''"
  shows "written (emitted s (snd (getter P pfloat (Some m) s))) = [] \<and>
         (dev_in s = [] \<longrightarrow> getter P pfloat (Some m) s = (Inl Blocked, s)) \<and>
         (\<forall>l ls. dev_in s = l # ls \<longrightarrow>
            emitted s (snd (getter P pfloat (Some m) s)) = [ReadLine l] \<and>
            dev_in (snd (getter P pfloat (Some m) s)) = ls \<and>
            fst (getter P pfloat (Some m) s) =
              (case pfloat (strip l) of Some v \<Rightarrow> Inr v | None \<Rightarrow> Inl ValueError))"
  using assms
  by (cases P)
     (auto simp: getter_defs and_then_def write_line_def read_def to_float_def emit_def
                 emitted_def pass_def split: option.splits list.splits)

theorem getter_unknown_bound_reads_without_query_witness:
  "''min'' \<noteq> ''MIN'' \<and> ''min'' \<noteq> ''MAX'' \<and>
   dev_in (demo\<lparr>dev_in := [''12.0'' @ [CHR 0x0A]]\<rparr>) = [''12.0'' @ [CHR 0x0A]] \<and>
   emitted (demo\<lparr>dev_in := [''12.0'' @ [CHR 0x0A]]\<rparr>)
     (snd (getter Voltage float_table (Some ''min'') (demo\<lparr>dev_in := [''12.0'' @ [CHR 0x0A]]\<rparr>))) =
     [ReadLine (''12.0'' @ [CHR 0x0A])] \<and>
   fst (getter Voltage float_table (Some ''min'') (demo\<lparr>dev_in := [''12.0'' @ [CHR 0x0A]]\<rparr>)) = Inr (PyFloat 12) \<and>
   dev_in demo = [] \<and>
   getter InternalResistance float_table (Some ''min'') demo = (Inl Blocked, demo)"
  using getter_unknown_bound_reads_without_query [of "''min''" "demo\<lparr>dev_in := [''12.0'' @ [CHR 0x0A]]\<rparr>" Voltage float_table]
        getter_unknown_bound_reads_without_query [of "''min''" demo InternalResistance float_table]
  by (simp add: strip_def isspace_def float_table_def demo_def)

section \<open>Each setter against its own bounds\<close>

text \<open>
  Seven of the nine setters compare the value with the two bounds cached for their own
  parameter: nothing is written for a value at or outside a bound, and the command word
  followed by \<^verbatim>\<open>str\<close> of the value is written for a value strictly inside.
\<close>

lemma py_le_not_lt: "py_le a b \<Longrightarrow> \<not> py_lt b a"
  by (cases a; cases b) auto

lemma setter_respects_own_bounds:
  assumes "P \<noteq> OverVoltageProtection" and "P \<noteq> RisingCurrentSlewRate"
  shows "(py_le v (cached_min P s) \<or> py_le (cached_max P s) v \<longrightarrow>
            written (emitted s (snd (setter P repr v s))) = []) \<and>
         (py_lt (cached_min P s) v \<and> py_lt v (cached_max P s) \<longrightarrow>
            written (emitted s (snd (setter P repr v s))) =
              [command_word P @ '' '' @ py_str repr v @ [CHR 0x0A]])"
  using assms
  by (cases P) (auto simp: setter_defs write_line_def warning_def dest: py_le_not_lt)

text \<open>
  C1. The claim asks of every setter that it writes its command for a value strictly
  between the bounds cached for that same parameter. \<^verbatim>\<open>set_over_voltage_protection\<close>
  compares with \<^verbatim>\<open>over_current_protection_min\<close> instead of
  \<^verbatim>\<open>over_voltage_protection_min\<close>: on the example object, whose over-voltage bounds
  are 3 and 33 and whose lower over-current bound is 10.8, the value 5 lies strictly
  inside its own bounds and yet nothing is written, only the warning is logged.
\<close>

theorem set_over_voltage_protection_checks_current_bound:
  "py_lt (over_voltage_protection_min demo) (PyInt 5) \<and>
   py_lt (PyInt 5) (over_voltage_protection_max demo) \<and>
   written (emitted demo (snd (set_over_voltage_protection demo_repr (PyInt 5) demo))) = [] \<and>
   warnings (emitted demo (snd (set_over_voltage_protection demo_repr (PyInt 5) demo))) =
     [''Warning: Set over-voltage protection is out of power supply absolute ratings. '' @
      ''Command has been ignored.'']"
  by (simp add: set_over_voltage_protection_def warning_def demo_def)

text \<open>
  \<^verbatim>\<open>set_rising_current_slew_rate\<close> compares with \<^verbatim>\<open>current_max_falling_slew_rate\<close>
  instead of \<^verbatim>\<open>current_max_rising_slew_rate\<close>; the two setters differ from the claim
  where the two cached values differ.
\<close>

lemma set_rising_current_slew_rate_checks_falling_bound:
  "py_lt (current_min_rising_slew_rate (demo\<lparr>current_max_falling_slew_rate := PyFloat 100\<rparr>)) (PyInt 150) \<and>
   py_lt (PyInt 150) (current_max_rising_slew_rate (demo\<lparr>current_max_falling_slew_rate := PyFloat 100\<rparr>)) \<and>
   written (emitted (demo\<lparr>current_max_falling_slew_rate := PyFloat 100\<rparr>)
     (snd (set_rising_current_slew_rate demo_repr (PyInt 150)
        (demo\<lparr>current_max_falling_slew_rate := PyFloat 100\<rparr>)))) = []"
  by (simp add: set_rising_current_slew_rate_def warning_def demo_def)

section \<open>One turn of the sampling loop\<close>

lemmas loop_defs = loop_body_def measure_voltage_def measure_current_def measure_power_def
  append_voltage_def append_current_def append_power_def and_then_def acquire_def release_def
  sleep_def write_line_def read_def to_float_def emit_def

lemma loop_body_Inr:
  assumes "loop_body pfloat tid s = (Inr u, s')"
  shows "\<exists>l1 l2 l3 rest v i p.
           dev_in s = l1 # l2 # l3 # rest \<and>
           pfloat (strip l1) = Some v \<and> pfloat (strip l2) = Some i \<and> pfloat (strip l3) = Some p \<and>
           (lock s = None \<or> (\<exists>n. lock s = Some (tid, n))) \<and>
           s' = s\<lparr>lock := (case lock s of None \<Rightarrow> None
                              | Some (owner, n) \<Rightarrow> if n = 0 then None else Some (tid, n)),
                  dev_in := rest,
                  data_voltage := data_voltage s @ [v],
                  data_current := data_current s @ [i],
                  data_power := data_power s @ [p],
                  trace := trace s @
                    [Acquire tid,
                     Write (''MEAS:VOLT?'' @ [CHR 0x0A]), ReadLine l1, AppendVoltage v,
                     Write (''MEAS:CURR?'' @ [CHR 0x0A]), ReadLine l2, AppendCurrent i,
                     Write (''MEAS:POW?'' @ [CHR 0x0A]), ReadLine l3, AppendPower p,
                     Release tid, Sleep 50]\<rparr>"
  using assms
  unfolding loop_body_def measure_voltage_def measure_current_def measure_power_def
    append_voltage_def append_current_def append_power_def and_then_def acquire_def release_def
    sleep_def write_line_def read_def to_float_def emit_def
  by (auto split: option.splits list.splits if_splits)

lemma loop_body_Inl_no_sleep:
  assumes "loop_body pfloat tid s = (Inl e, s')"
  shows "Sleep ms \<notin> set (emitted s s')"
  using assms
  unfolding loop_body_def measure_voltage_def measure_current_def measure_power_def
    append_voltage_def append_current_def append_power_def and_then_def acquire_def release_def
    sleep_def write_line_def read_def to_float_def emit_def emitted_def
  by (auto split: option.splits list.splits if_splits)

lemma loop_body_sampling: "loop_body float_table 1 sampling = (Inr (), sampled)"
  by (simp add: loop_defs sampling_def sampled_def demo_def float_table_def strip_def isspace_def)

lemma loop_body_demo:
  "loop_body float_table 1 demo =
     (Inl Blocked, demo\<lparr>lock := Some (1, 1),
                        trace := trace demo @ [Acquire 1, Write (''MEAS:VOLT?'' @ [CHR 0x0A])]\<rparr>)"
  by (simp add: loop_defs demo_def)

text \<open>
  C10. A complete turn of the loop body (one that ends without an exception and without
  waiting for ever) appends exactly one element to each of the three series; so the
  three lengths are equal after the turn when they were equal before it.
\<close>

theorem loop_body_appends_one_to_each_series:
  assumes "loop_body pfloat tid s = (Inr u, s')"
  shows "(\<exists>v i p. data_voltage s' = data_voltage s @ [v] \<and>
                  data_current s' = data_current s @ [i] \<and>
                  data_power s' = data_power s @ [p]) \<and>
         (length (data_voltage s) = length (data_current s) \<and>
          length (data_current s) = length (data_power s) \<longrightarrow>
          length (data_voltage s') = length (data_current s') \<and>
          length (data_current s') = length (data_power s'))"
proof -
  from loop_body_Inr [OF assms] obtain v i p where
    "data_voltage s' = data_voltage s @ [v]"
    "data_current s' = data_current s @ [i]"
    "data_power s' = data_power s @ [p]"
    by auto
  then show ?thesis by auto
qed

theorem loop_body_appends_one_to_each_series_witness:
  "loop_body float_table 1 sampling = (Inr (), sampled) \<and>
   data_voltage sampled = data_voltage sampling @ [PyFloat 12] \<and>
   data_current sampled = data_current sampling @ [PyFloat 1.5] \<and>
   data_power sampled = data_power sampling @ [PyFloat 18] \<and>
   (length (data_voltage sampling) = length (data_current sampling) \<and>
    length (data_current sampling) = length (data_power sampling)) \<and>
   (length (data_voltage sampled) = length (data_current sampled) \<and>
    length (data_current sampled) = length (data_power sampled))"
  using loop_body_appends_one_to_each_series [OF loop_body_sampling] loop_body_sampling
  by (simp add: sampled_def sampling_def demo_def)

text \<open>
  A thread that goes on running after a turn of the loop leaves the lock free: between
  two turns no running sampler thread holds it.
\<close>

lemma loop_body_lock_free:
  assumes "loop_body pfloat tid s = (Inr u, s')"
  shows "lock s = None \<longrightarrow> lock s' = None"
  using loop_body_Inr [OF assms] by auto

lemma loop_body_Inl_threads:
  assumes "loop_body pfloat tid s = (Inl e, s')"
  shows "threads s' = threads s"
  using assms unfolding loop_defs
  by (auto split: option.splits list.splits if_splits)

lemma thread_turn_leaves_lock_free:
  assumes "lock s = None" and "thread_status tid (thread_turn pfloat tid s) = Running"
  shows "lock (thread_turn pfloat tid s) = None"
proof (cases "thread_status tid s = Running \<and> reading_thread_active s")
  case False
  with assms show ?thesis
    by (auto simp: thread_turn_def set_status_def thread_status_def split: if_splits)
next
  case True
  then have run: "thread_status tid s = Running" and act: "reading_thread_active s" by simp_all
  from run have lt: "tid < length (threads s)"
    by (auto simp: thread_status_def split: if_splits)
  obtain r s' where body: "loop_body pfloat tid s = (r, s')" by (cases "loop_body pfloat tid s")
  show ?thesis
  proof (cases r)
    case (Inr u)
    with body have "loop_body pfloat tid s = (Inr u, s')" by simp
    from loop_body_lock_free [OF this] assms(1) have "lock s' = None" by simp
    with run act body Inr show ?thesis by (simp add: thread_turn_def)
  next
    case (Inl e)
    with body have b: "loop_body pfloat tid s = (Inl e, s')" by simp
    from loop_body_Inl_threads [OF b] lt
    have "thread_status tid (finish tid (Inl e, s')) \<noteq> Running"
      by (simp add: finish_def set_status_def thread_status_def)
    moreover from run act b have "thread_turn pfloat tid s = finish tid (Inl e, s')"
      by (simp add: thread_turn_def)
    ultimately show ?thesis using assms(2) by simp
  qed
qed

text \<open>
  C8. In a complete turn of the loop body the thread acquires the lock first, then does
  the three measurements and the three appends, releases the lock and only then sleeps
  for 50 ms: the events of the turn are exactly this sequence. When the thread enters
  the turn without holding the lock (it holds it nowhere outside the body), nobody holds
  it after the release, and hence during the sleep. A turn that does not complete never
  reaches the sleep.
\<close>

theorem loop_body_lock_scope:
  assumes "loop_body pfloat tid s = (r, s')"
  shows "(\<forall>u. r = Inr u \<longrightarrow>
            (\<exists>l1 l2 l3 v i p.
               emitted s s' =
                 [Acquire tid,
                  Write (''MEAS:VOLT?'' @ [CHR 0x0A]), ReadLine l1, AppendVoltage v,
                  Write (''MEAS:CURR?'' @ [CHR 0x0A]), ReadLine l2, AppendCurrent i,
                  Write (''MEAS:POW?'' @ [CHR 0x0A]), ReadLine l3, AppendPower p,
                  Release tid, Sleep 50]) \<and>
            ((\<forall>n. lock s \<noteq> Some (tid, Suc n)) \<longrightarrow> lock s' = None)) \<and>
         (\<forall>e ms. r = Inl e \<longrightarrow> Sleep ms \<notin> set (emitted s s'))"
proof (cases r)
  case (Inr u)
  with assms have "loop_body pfloat tid s = (Inr u, s')" by simp
  from loop_body_Inr [OF this] obtain l1 l2 l3 rest v i p where
    lk: "lock s = None \<or> (\<exists>n. lock s = Some (tid, n))" and
    s': "s' = s\<lparr>lock := (case lock s of None \<Rightarrow> None
                              | Some (owner, n) \<Rightarrow> if n = 0 then None else Some (tid, n)),
                  dev_in := rest,
                  data_voltage := data_voltage s @ [v],
                  data_current := data_current s @ [i],
                  data_power := data_power s @ [p],
                  trace := trace s @
                    [Acquire tid,
                     Write (''MEAS:VOLT?'' @ [CHR 0x0A]), ReadLine l1, AppendVoltage v,
                     Write (''MEAS:CURR?'' @ [CHR 0x0A]), ReadLine l2, AppendCurrent i,
                     Write (''MEAS:POW?'' @ [CHR 0x0A]), ReadLine l3, AppendPower p,
                     Release tid, Sleep 50]\<rparr>"
    by blast
  have tr: "emitted s s' =
                 [Acquire tid,
                  Write (''MEAS:VOLT?'' @ [CHR 0x0A]), ReadLine l1, AppendVoltage v,
                  Write (''MEAS:CURR?'' @ [CHR 0x0A]), ReadLine l2, AppendCurrent i,
                  Write (''MEAS:POW?'' @ [CHR 0x0A]), ReadLine l3, AppendPower p,
                  Release tid, Sleep 50]"
    by (simp add: s' emitted_def)
  have free: "(\<forall>n. lock s \<noteq> Some (tid, Suc n)) \<longrightarrow> lock s' = None"
  proof
    assume a: "\<forall>n. lock s \<noteq> Some (tid, Suc n)"
    from lk show "lock s' = None"
    proof
      assume "lock s = None" then show ?thesis by (simp add: s')
    next
      assume "\<exists>n. lock s = Some (tid, n)"
      then obtain n where n: "lock s = Some (tid, n)" by blast
      with a have "n = 0" by (cases n) auto
      with n show ?thesis by (simp add: s')
    qed
  qed
  from Inr tr free show ?thesis by blast
next
  case (Inl e)
  with assms have "loop_body pfloat tid s = (Inl e, s')" by simp
  then have "\<And>ms. Sleep ms \<notin> set (emitted s s')" by (rule loop_body_Inl_no_sleep)
  with Inl show ?thesis by simp
qed

theorem loop_body_lock_scope_witness:
  "loop_body float_table 1 sampling = (Inr (), sampled) \<and>
   (\<forall>n. lock sampling \<noteq> Some (1, Suc n)) \<and>
   lock sampled = None \<and>
   emitted sampling sampled =
     [Acquire 1,
      Write (''MEAS:VOLT?'' @ [CHR 0x0A]), ReadLine (''12.0'' @ [CHR 0x0A]), AppendVoltage (PyFloat 12),
      Write (''MEAS:CURR?'' @ [CHR 0x0A]), ReadLine (''1.5'' @ [CHR 0x0A]), AppendCurrent (PyFloat 1.5),
      Write (''MEAS:POW?'' @ [CHR 0x0A]), ReadLine (''18.0'' @ [CHR 0x0A]), AppendPower (PyFloat 18),
      Release 1, Sleep 50] \<and>
   fst (loop_body float_table 1 demo) = Inl Blocked \<and>
   Sleep 50 \<notin> set (emitted demo (snd (loop_body float_table 1 demo)))"
  using loop_body_lock_scope [OF loop_body_sampling] loop_body_lock_scope [OF loop_body_demo]
        loop_body_sampling loop_body_demo
  by (simp add: sampled_def sampling_def demo_def emitted_def)

section \<open>The series across sampling runs\<close>









lemma set_status_data [simp]:
  "data_voltage (set_status tid st s) = data_voltage s"
  "data_current (set_status tid st s) = data_current s"
  "data_power (set_status tid st s) = data_power s"
  by (simp_all add: set_status_def)

lemma emit_data [simp]:
  "data_voltage (emit e s) = data_voltage s"
  "data_current (emit e s) = data_current s"
  "data_power (emit e s) = data_power s"
  by (simp_all add: emit_def)

lemma finish_data [simp]:
  "data_voltage (finish tid (r, s)) = data_voltage s"
  "data_current (finish tid (r, s)) = data_current s"
  "data_power (finish tid (r, s)) = data_power s"
  by (simp_all add: finish_def split: sum.splits)



section \<open>Stopping and saving\<close>



end
